theory Spec2Isabelle
  imports Complex_Main
begin

section \<open>Day 24, part two: the rock that hits every hailstone (z3_solution.py)\<close>

text \<open>
  The script declares six integer unknowns, builds two equality constraints for each of
  three hailstones that are written into the source, hands the six constraints to an
  external solver, reads the model back and prints the sum of the rock's position.

  The terms that the script builds with the solver library's overloaded operators are
  modelled as a small syntax tree, with the usual integer semantics. The solver itself
  is not part of the repository: it is a parameter of the model.
\<close>

subsection \<open>Unknowns, terms and constraints\<close>

text \<open>Lines 5 to 7: \<^verbatim>\<open>px, vx = Ints('px vx')\<close> and so on.\<close>

datatype var = Px | Vx | Py | Vy | Pz | Vz

text \<open>
  An arithmetic term: an unknown, a Python integer taken as a constant, and the two
  operators the script uses. An assertion is an equality of two terms.
\<close>

datatype expr = Var var | Const int | Sub expr expr | Mul expr expr

datatype constr = Eq expr expr

type_synonym assignment = "var \<Rightarrow> int"

primrec eval :: "assignment \<Rightarrow> expr \<Rightarrow> int" where
  "eval a (Var v) = a v"
| "eval a (Const c) = c"
| "eval a (Sub e f) = eval a e - eval a f"
| "eval a (Mul e f) = eval a e * eval a f"

primrec holds :: "assignment \<Rightarrow> constr \<Rightarrow> bool" where
  "holds a (Eq e f) = (eval a e = eval a f)"

text \<open>The solver's assertions are read in conjunction.\<close>

primrec sat_all :: "assignment \<Rightarrow> constr list \<Rightarrow> bool" where
  "sat_all a [] = True"
| "sat_all a (c # cs) = (holds a c \<and> sat_all a cs)"

subsection \<open>The input data\<close>

text \<open>Lines 28 to 32: a list of three lists of six integers.\<close>

definition hailstones :: "int list list" where
  "hailstones =
    [[216518090678054, 311610807965630, 244665409335040, -24, -43, 118],
     [119252599207972, 265844340901442, 404506989029618, 93, 9, -69],
     [366376232895280, 243548034524148, 222429607201000, 18, 38, 19]]"

subsection \<open>The solver object and the loop\<close>

text \<open>\<^verbatim>\<open>s = Solver()\<close>; \<^verbatim>\<open>s.add(c)\<close> appends an assertion.\<close>

record solver =
  assertions :: "constr list"

definition Solver :: solver where
  "Solver = \<lparr>assertions = []\<rparr>"

definition add :: "solver \<Rightarrow> constr \<Rightarrow> solver" where
  "add s c = s\<lparr>assertions := assertions s @ [c]\<rparr>"

datatype error = ValueError | Z3Exception | AttributeError

text \<open>Line 37: \<^verbatim>\<open>(px - sx) * (uy - vy) == (py - sy) * (ux - vx)\<close>.\<close>

definition xy_constraint :: "int \<Rightarrow> int \<Rightarrow> int \<Rightarrow> int \<Rightarrow> constr" where
  "xy_constraint sx sy ux uy =
     Eq (Mul (Sub (Var Px) (Const sx)) (Sub (Const uy) (Var Vy)))
        (Mul (Sub (Var Py) (Const sy)) (Sub (Const ux) (Var Vx)))"

text \<open>Line 38: \<^verbatim>\<open>(px - sx) * (uz - vz) == (pz - sz) * (ux - vx)\<close>.\<close>

definition xz_constraint :: "int \<Rightarrow> int \<Rightarrow> int \<Rightarrow> int \<Rightarrow> constr" where
  "xz_constraint sx sz ux uz =
     Eq (Mul (Sub (Var Px) (Const sx)) (Sub (Const uz) (Var Vz)))
        (Mul (Sub (Var Pz) (Const sz)) (Sub (Const ux) (Var Vx)))"

text \<open>
  Lines 36 to 38. The loop header unpacks each record into six names; Python raises
  ValueError when a record does not have exactly six elements.
\<close>

fun add_hailstones :: "solver \<Rightarrow> int list list \<Rightarrow> error + solver" where
  "add_hailstones s [] = Inr s"
| "add_hailstones s ([sx, sy, sz, ux, uy, uz] # hs) =
     add_hailstones (add (add s (xy_constraint sx sy ux uy)) (xz_constraint sx sz ux uz)) hs"
| "add_hailstones s (_ # hs) = Inl ValueError"

subsection \<open>The external solver and the script\<close>

text \<open>
  The solver library is outside the repository. What the script uses of it:
  \<^verbatim>\<open>s.check()\<close> gives a verdict, \<^verbatim>\<open>s.model()\<close> gives a model or raises when none
  is available, \<^verbatim>\<open>m[x]\<close> gives the value of an unknown or \<^verbatim>\<open>None\<close> when the
  model does not interpret it. The outcome of a check is therefore a verdict and an
  optional model, as a function of the assertions.
\<close>

datatype verdict = Sat | Unsat | Unknown

type_synonym z3_model = "var \<Rightarrow> int option"

record check_result =
  verdict :: verdict
  model :: "z3_model option"

type_synonym z3 = "constr list \<Rightarrow> check_result"

text \<open>What the script prints, one value per \<^verbatim>\<open>print\<close> call.\<close>

datatype line =
    PrintAssertions "constr list"
  | PrintVerdict verdict
  | PrintBlank
  | PrintPosition "int option" "int option" "int option"
  | PrintVelocity "int option" "int option" "int option"
  | PrintAnswer int

text \<open>
  Line 49: \<^verbatim>\<open>m[px].as_long() + m[py].as_long() + m[pz].as_long()\<close>; calling
  \<^verbatim>\<open>as_long\<close> on \<^verbatim>\<open>None\<close> raises AttributeError.
\<close>

definition answer :: "z3_model \<Rightarrow> error + int" where
  "answer m =
     (case m Px of None \<Rightarrow> Inl AttributeError | Some x \<Rightarrow>
      case m Py of None \<Rightarrow> Inl AttributeError | Some y \<Rightarrow>
      case m Pz of None \<Rightarrow> Inl AttributeError | Some z \<Rightarrow> Inr (x + y + z))"

text \<open>
  The whole script, lines 34 to 50: the lines printed, and either the exception that
  ends the run or the answer.
\<close>

definition script :: "z3 \<Rightarrow> line list \<times> (error + int)" where
  "script z =
     (case add_hailstones Solver hailstones of
        Inl e \<Rightarrow> ([], Inl e)
      | Inr s \<Rightarrow>
          let r = z (assertions s);
              out = [PrintAssertions (assertions s), PrintVerdict (verdict r), PrintBlank]
          in case model r of
               None \<Rightarrow> (out, Inl Z3Exception)
             | Some m \<Rightarrow>
                 let out' = out @ [PrintPosition (m Px) (m Py) (m Pz),
                                   PrintVelocity (m Vx) (m Vy) (m Vz), PrintBlank]
                 in case answer m of
                      Inl e \<Rightarrow> (out', Inl e)
                    | Inr n \<Rightarrow> (out' @ [PrintAnswer n], Inr n))"

text \<open>The assertions the script submits to the solver.\<close>

definition submitted :: "constr list" where
  "submitted = (case add_hailstones Solver hailstones of Inl e \<Rightarrow> [] | Inr s \<Rightarrow> assertions s)"

subsection \<open>The physical condition behind the constraints\<close>

text \<open>
  Lines 11 to 14 of the source: hailstone and rock are at the same position at time
  \<open>t\<close>, in each of the three coordinates.
\<close>

definition meets :: "assignment \<Rightarrow> int list \<Rightarrow> real \<Rightarrow> bool" where
  "meets a h t =
     (case h of
        [sx, sy, sz, ux, uy, uz] \<Rightarrow>
          real_of_int sx + t * real_of_int ux = real_of_int (a Px) + t * real_of_int (a Vx) \<and>
          real_of_int sy + t * real_of_int uy = real_of_int (a Py) + t * real_of_int (a Vy) \<and>
          real_of_int sz + t * real_of_int uz = real_of_int (a Pz) + t * real_of_int (a Vz)
      | _ \<Rightarrow> False)"

subsection \<open>The model of the fixed system\<close>

text \<open>
  The position and velocity of the rock for the three hailstones of the source. The
  script does not contain these numbers: it leaves them to the solver. They are shown
  below to be the one integer assignment that satisfies the six constraints.
\<close>

primrec rock :: assignment where
  "rock Px = 422644646660238"
| "rock Py = 244357651988392"
| "rock Pz = 189640099899118"
| "rock Vx = - 260"
| "rock Vy = 34"
| "rock Vz = 181"

subsection \<open>Change of reference frame\<close>

text \<open>
  The rock moved by the displacement \<open>(dx, dy, dz)\<close> and seen from a frame that moves
  with velocity \<open>(- wx, - wy, - wz)\<close>.
\<close>

definition shift :: "int \<Rightarrow> int \<Rightarrow> int \<Rightarrow> int \<Rightarrow> int \<Rightarrow> int \<Rightarrow> assignment \<Rightarrow> assignment" where
  "shift dx dy dz wx wy wz a =
     (\<lambda>v. case v of
        Px \<Rightarrow> a Px + dx | Py \<Rightarrow> a Py + dy | Pz \<Rightarrow> a Pz + dz
      | Vx \<Rightarrow> a Vx + wx | Vy \<Rightarrow> a Vy + wy | Vz \<Rightarrow> a Vz + wz)"

subsection \<open>Constraints as polynomials\<close>

text \<open>
  A polynomial in the six unknowns is a list of terms, each a monomial (the list of its
  unknowns, in the order of \<open>rank\<close>) with an integer coefficient. \<open>poly_of\<close> expands a
  term of the script by distributing every product; no term is dropped, so a monomial may
  occur several times and its coefficient is the sum over its occurrences.
\<close>

primrec rank :: "var \<Rightarrow> nat" where
  "rank Px = 0"
| "rank Vx = 1"
| "rank Py = 2"
| "rank Vy = 3"
| "rank Pz = 4"
| "rank Vz = 5"

fun insert_var :: "var \<Rightarrow> var list \<Rightarrow> var list" where
  "insert_var v [] = [v]"
| "insert_var v (w # ws) = (if rank v \<le> rank w then v # w # ws else w # insert_var v ws)"

definition mono_mult :: "var list \<Rightarrow> var list \<Rightarrow> var list" where
  "mono_mult m n = foldr insert_var m n"

type_synonym polynomial = "(var list \<times> int) list"

primrec poly_of :: "expr \<Rightarrow> polynomial" where
  "poly_of (Var v) = [([v], 1)]"
| "poly_of (Const c) = [([], c)]"
| "poly_of (Sub e f) = poly_of e @ map (\<lambda>t. (fst t, - snd t)) (poly_of f)"
| "poly_of (Mul e f) =
     concat (map (\<lambda>t. map (\<lambda>u. (mono_mult (fst t) (fst u), snd t * snd u)) (poly_of f)) (poly_of e))"

definition coeff :: "polynomial \<Rightarrow> var list \<Rightarrow> int" where
  "coeff p m = sum_list (map snd (filter (\<lambda>t. fst t = m) p))"

text \<open>The largest number of unknowns in a monomial whose coefficient is not zero.\<close>

definition total_degree :: "polynomial \<Rightarrow> nat" where
  "total_degree p =
     fold max (map (\<lambda>t. length (fst t)) (filter (\<lambda>t. coeff p (fst t) \<noteq> 0) p)) 0"

definition eval_mono :: "assignment \<Rightarrow> var list \<Rightarrow> int" where
  "eval_mono a m = prod_list (map a m)"

definition eval_poly :: "assignment \<Rightarrow> polynomial \<Rightarrow> int" where
  "eval_poly a p = sum_list (map (\<lambda>t. snd t * eval_mono a (fst t)) p)"

text \<open>The difference of the two sides of a constraint.\<close>

primrec residual :: "constr \<Rightarrow> expr" where
  "residual (Eq e f) = Sub e f"

section \<open>Basic facts\<close>

lemma holds_xy:
  "holds a (xy_constraint sx sy ux uy) \<longleftrightarrow> (a Px - sx) * (uy - a Vy) = (a Py - sy) * (ux - a Vx)"
  by (simp add: xy_constraint_def)

lemma holds_xz:
  "holds a (xz_constraint sx sz ux uz) \<longleftrightarrow> (a Px - sx) * (uz - a Vz) = (a Pz - sz) * (ux - a Vx)"
  by (simp add: xz_constraint_def)

lemma add_hailstones_one:
  "add_hailstones s [[sx, sy, sz, ux, uy, uz]] =
     Inr (s\<lparr>assertions := assertions s @ [xy_constraint sx sy ux uy, xz_constraint sx sz ux uz]\<rparr>)"
  by (simp add: add_def)

lemma add_hailstones_three:
  "add_hailstones Solver
     [[sx1, sy1, sz1, ux1, uy1, uz1], [sx2, sy2, sz2, ux2, uy2, uz2], [sx3, sy3, sz3, ux3, uy3, uz3]] =
   Inr \<lparr>assertions =
     [xy_constraint sx1 sy1 ux1 uy1, xz_constraint sx1 sz1 ux1 uz1,
      xy_constraint sx2 sy2 ux2 uy2, xz_constraint sx2 sz2 ux2 uz2,
      xy_constraint sx3 sy3 ux3 uy3, xz_constraint sx3 sz3 ux3 uz3]\<rparr>"
  by (simp add: add_def Solver_def)

lemma submitted_eq:
  "submitted =
     [xy_constraint 216518090678054 311610807965630 (-24) (-43),
      xz_constraint 216518090678054 244665409335040 (-24) 118,
      xy_constraint 119252599207972 265844340901442 93 9,
      xz_constraint 119252599207972 404506989029618 93 (-69),
      xy_constraint 366376232895280 243548034524148 18 38,
      xz_constraint 366376232895280 222429607201000 18 19]"
  unfolding submitted_def hailstones_def add_hailstones_three by simp

lemma script_unfold:
  "script z =
     (let r = z submitted;
          out = [PrintAssertions submitted, PrintVerdict (verdict r), PrintBlank]
      in case model r of
           None \<Rightarrow> (out, Inl Z3Exception)
         | Some m \<Rightarrow>
             let out' = out @ [PrintPosition (m Px) (m Py) (m Pz),
                               PrintVelocity (m Vx) (m Vy) (m Vz), PrintBlank]
             in case answer m of
                  Inl e \<Rightarrow> (out', Inl e)
                | Inr n \<Rightarrow> (out' @ [PrintAnswer n], Inr n))"
  unfolding script_def submitted_def hailstones_def add_hailstones_three by simp

lemma sat_all_rock: "sat_all rock submitted"
  by (simp add: submitted_eq holds_xy holds_xz)

section \<open>Integer arithmetic behind the constraints\<close>

text \<open>
  From the two constraints of a hailstone the third component of the cross product
  follows, unless the rock starts at the hailstone's \<open>x\<close> and has its \<open>x\<close> velocity.
\<close>

lemma third_component:
  fixes X Y Z W a b :: int
  assumes "X * a = Y * W" and "X * b = Z * W" and "X \<noteq> 0 \<or> W \<noteq> 0"
  shows "Y * b = Z * a"
proof -
  have "X * (Y * b) = Y * (X * b)" by simp
  also have "\<dots> = Z * (Y * W)" using assms(2) by simp
  also have "\<dots> = X * (Z * a)" using assms(1) by simp
  finally have x: "X * (Y * b) = X * (Z * a)" .
  have "W * (Y * b) = (Y * W) * b" by simp
  also have "\<dots> = (X * b) * a" using assms(1) by simp
  also have "\<dots> = W * (Z * a)" using assms(2) by simp
  finally have w: "W * (Y * b) = W * (Z * a)" .
  from assms(3) x w show ?thesis by auto
qed

text \<open>
  The product of the two unknowns is the same in the constraints of two hailstones: their
  difference is a linear equation.
\<close>

lemma pair_linear:
  fixes P Q VP VQ :: int
  assumes "(P - s1) * (uq1 - VQ) = (Q - t1) * (up1 - VP)"
    and "(P - s2) * (uq2 - VQ) = (Q - t2) * (up2 - VP)"
  shows "(uq1 - uq2) * P - (up1 - up2) * Q + (s1 - s2) * VQ - (t1 - t2) * VP =
         (s1 * uq1 - t1 * up1) - (s2 * uq2 - t2 * up2)"
proof -
  have "(uq1 - uq2) * P - (up1 - up2) * Q + (s1 - s2) * VQ - (t1 - t2) * VP
        - ((s1 * uq1 - t1 * up1) - (s2 * uq2 - t2 * up2)) =
        ((P - s1) * (uq1 - VQ) - (Q - t1) * (up1 - VP)) -
        ((P - s2) * (uq2 - VQ) - (Q - t2) * (up2 - VP))"
    by (simp add: algebra_simps)
  also have "\<dots> = 0" using assms by simp
  finally show ?thesis by simp
qed

text \<open>
  When the rock starts at one hailstone's \<open>x\<close> with its \<open>x\<close> velocity, the constraints
  of the two other hailstones are linear, with known factors \<open>A\<close> and \<open>B\<close>.
\<close>

lemma degenerate_elim:
  fixes p v :: int
  assumes "A2 * (u2 - v) = (p - s2) * B2" and "A3 * (u3 - v) = (p - s3) * B3"
  shows "(B2 * A3 - B3 * A2) * v = B2 * B3 * (s3 - s2) - B3 * A2 * u2 + B2 * A3 * u3"
proof -
  have "(B2 * B3 * (s3 - s2) - B3 * A2 * u2 + B2 * A3 * u3) - (B2 * A3 - B3 * A2) * v =
        B2 * (A3 * (u3 - v) - (p - s3) * B3) - B3 * (A2 * (u2 - v) - (p - s2) * B2)"
    by (simp add: algebra_simps)
  also have "\<dots> = 0" using assms by simp
  finally show ?thesis by simp
qed

text \<open>
  The six equations of the source's hailstones have one integer solution. Either the
  rock starts on a hailstone's \<open>x\<close> with its \<open>x\<close> velocity, and then the two other
  hailstones ask for a \<open>vy\<close> that is not an integer; or all three cross products vanish,
  and the six linear equations between pairs of hailstones determine every unknown.
\<close>

lemma rock_unique:
  fixes px py pz vx vy vz :: int
  assumes E1: "(px - 216518090678054) * (- 43 - vy) = (py - 311610807965630) * (- 24 - vx)"
    and F1: "(px - 216518090678054) * (118 - vz) = (pz - 244665409335040) * (- 24 - vx)"
    and E2: "(px - 119252599207972) * (9 - vy) = (py - 265844340901442) * (93 - vx)"
    and F2: "(px - 119252599207972) * (- 69 - vz) = (pz - 404506989029618) * (93 - vx)"
    and E3: "(px - 366376232895280) * (38 - vy) = (py - 243548034524148) * (18 - vx)"
    and F3: "(px - 366376232895280) * (19 - vz) = (pz - 222429607201000) * (18 - vx)"
  shows "px = 422644646660238 \<and> py = 244357651988392 \<and> pz = 189640099899118 \<and> vx = - 260 \<and> vy = 34 \<and> vz = 181"
proof -
  consider
    (hit1) "px = 216518090678054 \<and> vx = - 24"
    | (hit2) "px = 119252599207972 \<and> vx = 93"
    | (hit3) "px = 366376232895280 \<and> vx = 18"
    | (general) "px \<noteq> 216518090678054 \<or> vx \<noteq> - 24" "px \<noteq> 119252599207972 \<or> vx \<noteq> 93" "px \<noteq> 366376232895280 \<or> vx \<noteq> 18"
    by blast
  then show ?thesis
  proof cases
    case hit1
    with degenerate_elim [OF E2 E3] have "(- 21618553281158886) * vy = (- 812599705611500508)"
      by simp
    then have "(- 21618553281158886::int) dvd (- 812599705611500508)"
      by (metis dvd_triv_left)
    then show ?thesis
      by simp
  next
    case hit2
    with degenerate_elim [OF E1 E3] have "21618553281158886 * vy = 815142048415781268"
      by simp
    then have "(21618553281158886::int) dvd 815142048415781268"
      by (metis dvd_triv_left)
    then show ?thesis
      by simp
  next
    case hit3
    with degenerate_elim [OF E1 E2] have "(- 21618553281158886) * vy = 534044146368943626"
      by simp
    then have "(- 21618553281158886::int) dvd 534044146368943626"
      by (metis dvd_triv_left)
    then show ?thesis
      by simp
  next
    case general
    from general(1) have G1: "(py - 311610807965630) * (118 - vz) = (pz - 244665409335040) * (- 43 - vy)"
      by (intro third_component [OF E1 F1]) simp
    from general(2) have G2: "(py - 265844340901442) * (- 69 - vz) = (pz - 404506989029618) * (9 - vy)"
      by (intro third_component [OF E2 F2]) simp
    from general(3) have G3: "(py - 243548034524148) * (19 - vz) = (pz - 222429607201000) * (38 - vy)"
      by (intro third_component [OF E3 F3]) simp
    have L1: "(- 52) * px + 117 * py + 97265491470082 * vy + (- 45766467064188) * vx = 21818631802981156"
      using pair_linear [OF E1 E2] by simp
    have L2: "(- 81) * px + 42 * py + (- 149858142217226) * vy + (- 68062773441482) * vx = (- 11370050736567178)"
      using pair_linear [OF E1 E3] by simp
    have L3: "187 * px + 117 * pz + 97265491470082 * vz + 159841579694578 * vx = 77268683849155874"
      using pair_linear [OF F1 F2] by simp
    have L4: "99 * px + 42 * pz + (- 149858142217226) * vz + (- 22235802134040) * vx = 28463689028659012"
      using pair_linear [OF F1 F3] by simp
    have L5: "187 * py + 52 * pz + 45766467064188 * vz + 159841579694578 * vy = 69274510364817120"
      using pair_linear [OF G1 G2] by simp
    have L6: "99 * py + 81 * pz + 68062773441482 * vz + (- 22235802134040) * vy = 51115600359030248"
      using pair_linear [OF G1 G3] by simp
    have "2480474630717298444009266309911746606948 * (px - 422644646660238) =
          4998490142136617529593912388159550247135 * (((- 52) * px + 117 * py + 97265491470082 * vy + (- 45766467064188) * vx) - 21818631802981156) +
          (- 82570958270535188733698403857014093952) * (((- 81) * px + 42 * py + (- 149858142217226) * vy + (- 68062773441482) * vx) - (- 11370050736567178)) +
          1390081426779660125271781844179310487962 * ((187 * px + 117 * pz + 97265491470082 * vz + 159841579694578 * vx) - 77268683849155874) +
          (- 42742549554428118488485505855968115162) * ((99 * px + 42 * pz + (- 149858142217226) * vz + (- 22235802134040) * vx) - 28463689028659012) +
          (- 3116931196284715721726326569145580336559) * ((187 * py + 52 * pz + 45766467064188 * vz + 159841579694578 * vy) - 69274510364817120) +
          15260275986061282092430828056068040078 * ((99 * py + 81 * pz + 68062773441482 * vz + (- 22235802134040) * vy) - 51115600359030248)"
      by (simp add: algebra_simps)
    with L1 L2 L3 L4 L5 L6 have s1: "px = 422644646660238"
      by simp
    have "1240237315358649222004633154955873303474 * (py - 244357651988392) =
          18832397900881442031929346844917807140 * (((- 52) * px + 117 * py + 97265491470082 * vy + (- 45766467064188) * vx) - 21818631802981156) +
          15767605337678646890633725249848044917 * (((- 81) * px + 42 * py + (- 149858142217226) * vy + (- 68062773441482) * vx) - (- 11370050736567178)) +
          12097992429466033361298803980510367633 * ((187 * px + 117 * pz + 97265491470082 * vz + 159841579694578 * vx) - 77268683849155874) +
          (- 59230920326695502638571345272940786) * ((99 * px + 42 * pz + (- 149858142217226) * vz + (- 22235802134040) * vx) - 28463689028659012) +
          822878130053112175997379643440677169 * ((187 * py + 52 * pz + 45766467064188 * vz + 159841579694578 * vy) - 69274510364817120) +
          (- 17972433066130450929790170502187218677) * ((99 * py + 81 * pz + 68062773441482 * vz + (- 22235802134040) * vy) - 51115600359030248)"
      by (simp add: algebra_simps)
    with L1 L2 L3 L4 L5 L6 have s2: "py = 244357651988392"
      by simp
    have "826824876905766148003088769970582202316 * (pz - 189640099899118) =
          (- 960344888713669173954469104661960487721) * (((- 52) * px + 117 * py + 97265491470082 * vy + (- 45766467064188) * vx) - 21818631802981156) +
          4701781053442037250363337254724811682 * (((- 81) * px + 42 * py + (- 149858142217226) * vy + (- 68062773441482) * vx) - (- 11370050736567178)) +
          (- 271311985853919601977143519623599296988) * ((187 * px + 117 * pz + 97265491470082 * vz + 159841579694578 * vx) - 77268683849155874) +
          11901529362636096377503788331553867894 * ((99 * px + 42 * pz + (- 149858142217226) * vz + (- 22235802134040) * vx) - 28463689028659012) +
          591080829615546778800366957435362378283 * ((187 * py + 52 * pz + 45766467064188 * vz + 159841579694578 * vy) - 69274510364817120) +
          16472343809570506590798020609476467008 * ((99 * py + 81 * pz + 68062773441482 * vz + (- 22235802134040) * vy) - 51115600359030248)"
      by (simp add: algebra_simps)
    with L1 L2 L3 L4 L5 L6 have s3: "pz = 189640099899118"
      by simp
    have "4960949261434596888018532619823493213896 * (vx - (- 260)) =
          (- 11557465594960163787487889893) * (((- 52) * px + 117 * py + 97265491470082 * vy + (- 45766467064188) * vx) - 21818631802981156) +
          257364471174167456417364046 * (((- 81) * px + 42 * py + (- 149858142217226) * vy + (- 68062773441482) * vx) - (- 11370050736567178)) +
          (- 3154779273096089482312503892) * ((187 * px + 117 * pz + 97265491470082 * vz + 159841579694578 * vx) - 77268683849155874) +
          99010457536846264776509506 * ((99 * px + 42 * pz + (- 149858142217226) * vz + (- 22235802134040) * vx) - 28463689028659012) +
          7253167784245340216282213619 * ((187 * py + 52 * pz + 45766467064188 * vz + 159841579694578 * vy) - 69274510364817120) +
          (- 150789988210651418971920396) * ((99 * py + 81 * pz + 68062773441482 * vz + (- 22235802134040) * vy) - 51115600359030248)"
      by (simp add: algebra_simps)
    with L1 L2 L3 L4 L5 L6 have s4: "vx = - 260"
      by simp
    have "2480474630717298444009266309911746606948 * (vy - 34) =
          (- 66590969085806429278868887) * (((- 52) * px + 117 * py + 97265491470082 * vy + (- 45766467064188) * vx) - 21818631802981156) +
          (- 21528479943849086891802119) * (((- 81) * px + 42 * py + (- 149858142217226) * vy + (- 68062773441482) * vx) - (- 11370050736567178)) +
          (- 28152295773496967614251853) * ((187 * px + 117 * pz + 97265491470082 * vz + 159841579694578 * vx) - 77268683849155874) +
          585273148790127102302452 * ((99 * px + 42 * pz + (- 149858142217226) * vz + (- 22235802134040) * vx) - 28463689028659012) +
          38070609721313741023826946 * ((187 * py + 52 * pz + 45766467064188 * vz + 159841579694578 * vy) - 69274510364817120) +
          15920560836316609127552625 * ((99 * py + 81 * pz + 68062773441482 * vz + (- 22235802134040) * vy) - 51115600359030248)"
      by (simp add: algebra_simps)
    with L1 L2 L3 L4 L5 L6 have s5: "vy = 34"
      by simp
    have "551216584603844098668725846647054801544 * (vz - 181) =
          744914593867772903620035287 * (((- 52) * px + 117 * py + 97265491470082 * vy + (- 45766467064188) * vx) - 21818631802981156) +
          (- 15486428298439073068401308) * (((- 81) * px + 42 * py + (- 149858142217226) * vy + (- 68062773441482) * vx) - (- 11370050736567178)) +
          205390204111814343037400270 * ((187 * px + 117 * pz + 97265491470082 * vz + 159841579694578 * vx) - 77268683849155874) +
          (- 9361716969279354326187086) * ((99 * px + 42 * pz + (- 149858142217226) * vz + (- 22235802134040) * vx) - 28463689028659012) +
          (- 466722878482319442035648739) * ((187 * py + 52 * pz + 45766467064188 * vz + 159841579694578 * vy) - 69274510364817120) +
          7804048305037848545404450 * ((99 * py + 81 * pz + 68062773441482 * vz + (- 22235802134040) * vy) - 51115600359030248)"
      by (simp add: algebra_simps)
    with L1 L2 L3 L4 L5 L6 have s6: "vz = 181"
      by simp
    from s1 s2 s3 s4 s5 s6 show ?thesis
      by simp
  qed
qed

text \<open>Three hailstones with the same \<open>x\<close> velocity and one integer solution.\<close>

lemma cx_unique:
  fixes px py pz vx vy vz :: int
  assumes c1: "(px - 1) * (1 - vy) = (py - (- 1)) * (0 - vx)"
    and c2: "(px - 1) * (0 - vz) = (pz - 0) * (0 - vx)"
    and c3: "(px - 2) * (0 - vy) = (py - 0) * (0 - vx)"
    and c4: "(px - 2) * (1 - vz) = (pz - (- 2)) * (0 - vx)"
    and c5: "(px - 3) * (1 - vy) = (py - (- 3)) * (0 - vx)"
    and c6: "(px - 3) * (1 - vz) = (pz - (- 3)) * (0 - vx)"
  shows "px = 0 \<and> py = 0 \<and> pz = 0 \<and> vx = 1 \<and> vy = 0 \<and> vz = 0"
proof -
  have vy: "vy = 1 - vx"
    using pair_linear [OF c1 c5] by simp
  have vz: "vz = 1 - vx"
    using pair_linear [OF c4 c6] by simp
  have nz: "vx \<noteq> 0"
  proof
    assume "vx = 0"
    with c3 c2 vy vz have "px = 2" and "px = 1" by simp_all
    then show False by simp
  qed
  from c1 vy have "(px - 1) * vx = (- py - 1) * vx"
    by (simp add: algebra_simps)
  with nz have py: "py = - px" by simp
  from c4 vz have "(px - 2) * vx = (- pz - 2) * vx"
    by (simp add: algebra_simps)
  with nz have pz: "pz = - px" by simp
  from c3 vy py have a: "px = 2 - 2 * vx"
    by (simp add: algebra_simps)
  from c2 vz pz have b: "px = 1 - vx"
    by (simp add: algebra_simps)
  from a b have "vx = 1" by simp
  with a vy vz py pz show ?thesis by simp
qed

lemma sat_all_submitted_iff: "sat_all a submitted \<longleftrightarrow> a = rock"
proof
  assume "sat_all a submitted"
  then have "a Px = 422644646660238 \<and> a Py = 244357651988392 \<and> a Pz = 189640099899118 \<and>
             a Vx = - 260 \<and> a Vy = 34 \<and> a Vz = 181"
    by (intro rock_unique) (simp_all add: submitted_eq holds_xy holds_xz)
  then have "a v = rock v" for v
    by (cases v) simp_all
  then show "a = rock"
    by (intro ext)
next
  assume "a = rock"
  then show "sat_all a submitted"
    by (simp add: sat_all_rock)
qed

section \<open>The expansion into a polynomial is sound\<close>

lemma eval_mono_insert: "eval_mono a (insert_var v ws) = a v * eval_mono a ws"
  by (induction ws) (simp_all add: eval_mono_def)

lemma eval_mono_mult: "eval_mono a (mono_mult m n) = eval_mono a m * eval_mono a n"
proof (induction m)
  case Nil
  then show ?case by (simp add: mono_mult_def eval_mono_def)
next
  case (Cons v m)
  then show ?case
    using eval_mono_insert [of a v "mono_mult m n"]
    by (simp add: mono_mult_def eval_mono_def)
qed

lemma eval_poly_append: "eval_poly a (p @ q) = eval_poly a p + eval_poly a q"
  by (simp add: eval_poly_def)

lemma eval_poly_neg: "eval_poly a (map (\<lambda>t. (fst t, - snd t)) p) = - eval_poly a p"
  by (induction p) (simp_all add: eval_poly_def)

lemma eval_poly_scale:
  "eval_poly a (map (\<lambda>u. (mono_mult m (fst u), c * snd u)) q) = c * eval_mono a m * eval_poly a q"
  by (induction q) (simp_all add: eval_poly_def eval_mono_mult algebra_simps)

lemma eval_poly_times:
  "eval_poly a (concat (map (\<lambda>t. map (\<lambda>u. (mono_mult (fst t) (fst u), snd t * snd u)) q) p)) =
   eval_poly a p * eval_poly a q"
proof (induction p)
  case Nil
  then show ?case by (simp add: eval_poly_def)
next
  case (Cons t p)
  let ?f = "\<lambda>t. map (\<lambda>u. (mono_mult (fst t) (fst u), snd t * snd u)) q"
  have "eval_poly a (concat (map ?f (t # p))) = eval_poly a (?f t) + eval_poly a (concat (map ?f p))"
    by (simp add: eval_poly_append)
  also have "\<dots> = snd t * eval_mono a (fst t) * eval_poly a q + eval_poly a p * eval_poly a q"
    by (simp only: eval_poly_scale Cons.IH)
  also have "\<dots> = eval_poly a (t # p) * eval_poly a q"
    by (simp add: eval_poly_def algebra_simps)
  finally show ?case .
qed

lemma eval_poly_of: "eval_poly a (poly_of e) = eval a e"
proof (induction e)
  case (Var v)
  show ?case by (simp add: eval_poly_def eval_mono_def)
next
  case (Const c)
  show ?case by (simp add: eval_poly_def eval_mono_def)
next
  case (Sub e f)
  then show ?case by (simp add: eval_poly_append eval_poly_neg)
next
  case (Mul e f)
  then show ?case by (simp add: eval_poly_times)
qed

lemma fold_max_ge: "(n::nat) \<le> fold max xs n"
proof (induction xs arbitrary: n)
  case Nil
  then show ?case by simp
next
  case (Cons x xs)
  have "n \<le> max x n" by simp
  also have "\<dots> \<le> fold max xs (max x n)" by (rule Cons.IH)
  finally show ?case by simp
qed

lemma fold_max_bound: "list_all (\<lambda>x. x \<le> b) xs \<Longrightarrow> (n::nat) \<le> b \<Longrightarrow> fold max xs n \<le> b"
  by (induction xs arbitrary: n) simp_all

lemma fold_max_mem: "(x::nat) \<in> set xs \<Longrightarrow> x \<le> fold max xs n"
proof (induction xs arbitrary: n)
  case Nil
  then show ?case by simp
next
  case (Cons y ys)
  show ?case
  proof (cases "x = y")
    case True
    have "x \<le> max y n" using True by simp
    also have "\<dots> \<le> fold max ys (max y n)" by (rule fold_max_ge)
    finally show ?thesis by simp
  next
    case False
    with Cons show ?thesis by simp
  qed
qed

lemma total_degree_eqI:
  assumes "list_all (\<lambda>t. length (fst t) \<le> n) p" and "t \<in> set p" and "length (fst t) = n"
    and "coeff p (fst t) \<noteq> 0"
  shows "total_degree p = n"
proof (rule antisym)
  have "list_all (\<lambda>x. x \<le> n) (map (\<lambda>t. length (fst t)) (filter (\<lambda>t. coeff p (fst t) \<noteq> 0) p))"
    using assms(1) by (auto simp: list_all_iff)
  then show "total_degree p \<le> n"
    unfolding total_degree_def by (rule fold_max_bound) simp
  have "n \<in> set (map (\<lambda>t. length (fst t)) (filter (\<lambda>t. coeff p (fst t) \<noteq> 0) p))"
    using assms(2-4) by force
  then show "n \<le> total_degree p"
    unfolding total_degree_def by (rule fold_max_mem)
qed

lemma poly_xy:
  "poly_of (residual (xy_constraint sx sy ux uy)) =
     [([Px], uy), ([Px, Vy], - 1), ([], - sx * uy), ([Vy], sx),
      ([Py], - ux), ([Vx, Py], 1), ([], sy * ux), ([Vx], - sy)]"
  by (simp add: xy_constraint_def mono_mult_def)

lemma poly_xz:
  "poly_of (residual (xz_constraint sx sz ux uz)) =
     [([Px], uz), ([Px, Vz], - 1), ([], - sx * uz), ([Vz], sx),
      ([Pz], - ux), ([Vx, Pz], 1), ([], sz * ux), ([Vx], - sz)]"
  by (simp add: xz_constraint_def mono_mult_def)

section \<open>The claims\<close>

text \<open>
  C1. For a hailstone with position \<open>(sx, sy, sz)\<close> and velocity \<open>(ux, uy, uz)\<close> the
  loop adds exactly two assertions, which hold under an assignment of the six unknowns
  exactly when \<open>(px - sx) * (uy - vy) = (py - sy) * (ux - vx)\<close> and
  \<open>(px - sx) * (uz - vz) = (pz - sz) * (ux - vx)\<close>. For the three hailstones of the
  source, six assertions are submitted, the solver is called on exactly these, and they
  hold together exactly when the two equations hold for each of the three hailstones.
\<close>

theorem emitted_constraints:
  "add_hailstones s [[sx, sy, sz, ux, uy, uz]] =
     Inr (s\<lparr>assertions := assertions s @ [xy_constraint sx sy ux uy, xz_constraint sx sz ux uz]\<rparr>) \<and>
   (holds a (xy_constraint sx sy ux uy) \<longleftrightarrow>
      (a Px - sx) * (uy - a Vy) = (a Py - sy) * (ux - a Vx)) \<and>
   (holds a (xz_constraint sx sz ux uz) \<longleftrightarrow>
      (a Px - sx) * (uz - a Vz) = (a Pz - sz) * (ux - a Vx)) \<and>
   add_hailstones Solver hailstones = Inr \<lparr>assertions = submitted\<rparr> \<and>
   length submitted = 6 \<and>
   script z = script (\<lambda>cs. z submitted) \<and>
   (sat_all a submitted \<longleftrightarrow>
      list_all (\<lambda>h. case h of
          [sx, sy, sz, ux, uy, uz] \<Rightarrow>
            (a Px - sx) * (uy - a Vy) = (a Py - sy) * (ux - a Vx) \<and>
            (a Px - sx) * (uz - a Vz) = (a Pz - sz) * (ux - a Vx)
        | _ \<Rightarrow> False) hailstones)"
proof -
  have one: "add_hailstones s [[sx, sy, sz, ux, uy, uz]] =
     Inr (s\<lparr>assertions := assertions s @ [xy_constraint sx sy ux uy, xz_constraint sx sz ux uz]\<rparr>)"
    by (rule add_hailstones_one)
  have loop: "add_hailstones Solver hailstones = Inr \<lparr>assertions = submitted\<rparr>"
    unfolding submitted_def unfolding hailstones_def add_hailstones_three by simp
  have six: "length submitted = 6"
    by (simp add: submitted_eq)
  have call: "script z = script (\<lambda>cs. z submitted)"
    by (simp add: script_unfold)
  have conj: "sat_all a submitted \<longleftrightarrow>
      list_all (\<lambda>h. case h of
          [sx, sy, sz, ux, uy, uz] \<Rightarrow>
            (a Px - sx) * (uy - a Vy) = (a Py - sy) * (ux - a Vx) \<and>
            (a Px - sx) * (uz - a Vz) = (a Pz - sz) * (ux - a Vx)
        | _ \<Rightarrow> False) hailstones"
    by (simp add: submitted_eq hailstones_def holds_xy holds_xz)
  show ?thesis
    by (intro conjI) (fact one holds_xy holds_xz loop six call conj)+
qed

text \<open>
  C2. For the three hailstones of the source the six constraints have an integer
  solution, which satisfies each of them exactly, and it is the only one: position
  \<open>(422644646660238, 244357651988392, 189640099899118)\<close>, velocity \<open>(-260, 34, 181)\<close>.
\<close>

theorem fixed_system_unique_model:
  "(\<exists>!a. sat_all a submitted) \<and>
   (sat_all a submitted \<longleftrightarrow>
      a Px = 422644646660238 \<and> a Py = 244357651988392 \<and> a Pz = 189640099899118 \<and>
      a Vx = - 260 \<and> a Vy = 34 \<and> a Vz = 181)"
proof
  show "\<exists>!a. sat_all a submitted"
    by (simp add: sat_all_submitted_iff)
  have "a = rock \<longleftrightarrow>
      a Px = 422644646660238 \<and> a Py = 244357651988392 \<and> a Pz = 189640099899118 \<and>
      a Vx = - 260 \<and> a Vy = 34 \<and> a Vz = 181" (is "_ \<longleftrightarrow> ?numbers")
  proof
    assume "a = rock"
    then show ?numbers by simp
  next
    assume ?numbers
    then have "a v = rock v" for v
      by (cases v) simp_all
    then show "a = rock"
      by (intro ext)
  qed
  then show "sat_all a submitted \<longleftrightarrow> ?numbers"
    by (simp only: sat_all_submitted_iff)
qed

text \<open>
  C3. When the solver gives a model that interprets the three position unknowns, the
  answer the script prints, last, is the sum of these three values, as an unbounded
  integer; it is the same whatever the model says about the velocity unknowns.
\<close>

theorem answer_is_position_sum:
  assumes "model (z submitted) = Some m"
    and "m Px = Some x" and "m Py = Some y" and "m Pz = Some w"
  shows "snd (script z) = Inr (x + y + w) \<and>
         last (fst (script z)) = PrintAnswer (x + y + w) \<and>
         snd (script (\<lambda>cs. (z cs)\<lparr>model := Some (m(Vx := i, Vy := j, Vz := k))\<rparr>)) = Inr (x + y + w)"
  using assms by (simp add: script_unfold answer_def)

theorem answer_is_position_sum_witness:
  "model ((\<lambda>cs. \<lparr>verdict = Sat, model = Some (\<lambda>v. Some (rock v))\<rparr>) submitted) =
     Some (\<lambda>v. Some (rock v)) \<and>
   snd (script (\<lambda>cs. \<lparr>verdict = Sat, model = Some (\<lambda>v. Some (rock v))\<rparr>)) = Inr 856642398547748 \<and>
   last (fst (script (\<lambda>cs. \<lparr>verdict = Sat, model = Some (\<lambda>v. Some (rock v))\<rparr>))) =
     PrintAnswer 856642398547748"
proof -
  let ?z = "\<lambda>cs::constr list. \<lparr>verdict = Sat, model = Some (\<lambda>v. Some (rock v))\<rparr>"
  have m: "model (?z submitted) = Some (\<lambda>v. Some (rock v))"
    by simp
  from m answer_is_position_sum [OF m, of "rock Px" "rock Py" "rock Pz"] show ?thesis
    by simp
qed

text \<open>
  C4. Every integer assignment that satisfies the six submitted constraints meets each
  of the three hailstones of the source: there is a real time \<open>t \<ge> 0\<close> at which rock and
  hailstone have the same \<open>x\<close>, the same \<open>y\<close> and the same \<open>z\<close>.
\<close>

theorem round_trip:
  assumes "sat_all a submitted" and "h \<in> set hailstones"
  shows "\<exists>t\<ge>0. meets a h t"
proof -
  from assms(1) have a: "a = rock"
    by (simp only: sat_all_submitted_iff)
  from assms(2) consider
      "h = [216518090678054, 311610807965630, 244665409335040, - 24, - 43, 118]"
    | "h = [119252599207972, 265844340901442, 404506989029618, 93, 9, - 69]"
    | "h = [366376232895280, 243548034524148, 222429607201000, 18, 38, 19]"
    by (auto simp: hailstones_def)
  then show ?thesis
  proof cases
    case 1
    then have "0 \<le> (873417610094::real) \<and> meets a h 873417610094"
      by (simp add: a meets_def)
    then show ?thesis ..
  next
    case 2
    then have "0 \<le> (859467556522::real) \<and> meets a h 859467556522"
      by (simp add: a meets_def)
    then show ?thesis ..
  next
    case 3
    then have "0 \<le> (202404366061::real) \<and> meets a h 202404366061"
      by (simp add: a meets_def)
    then show ?thesis ..
  qed
qed

theorem round_trip_witness:
  "sat_all rock submitted \<and>
   [119252599207972, 265844340901442, 404506989029618, 93, 9, - 69] \<in> set hailstones \<and>
   (\<exists>t\<ge>0. meets rock [119252599207972, 265844340901442, 404506989029618, 93, 9, - 69] t)"
proof -
  have s: "sat_all rock submitted"
    by (rule sat_all_rock)
  have h: "[119252599207972, 265844340901442, 404506989029618, 93, 9, - 69] \<in> set hailstones"
    by (simp add: hailstones_def)
  from s h round_trip [OF s h] show ?thesis
    by simp
qed

text \<open>
  C5, as the code has it. The verdict does not decide whether the model read fails: with
  a solver that answers unknown and still hands out a model, the script reads that model
  and prints an answer.
\<close>

theorem nonsat_verdict_counterexample:
  "verdict ((\<lambda>cs. \<lparr>verdict = Unknown, model = Some (\<lambda>v. Some 0)\<rparr>) submitted) \<noteq> Sat \<and>
   script (\<lambda>cs. \<lparr>verdict = Unknown, model = Some (\<lambda>v. Some 0)\<rparr>) =
     ([PrintAssertions submitted, PrintVerdict Unknown, PrintBlank,
       PrintPosition (Some 0) (Some 0) (Some 0), PrintVelocity (Some 0) (Some 0) (Some 0),
       PrintBlank, PrintAnswer 0],
      Inr 0)"
  by (simp add: script_unfold answer_def)

text \<open>
  C5, amended. The script reads the model after the check whatever the verdict is: how the
  run ends depends on the model read alone, and not on the verdict. When the solver has no
  model to give, the script has printed the assertions, the verdict and an empty line, the
  model read raises, and no answer is printed; when it gives a model, the run ends as the
  computation of the answer from that model does.
\<close>

theorem model_read_unguarded:
  "snd (script z) = (case model (z submitted) of None \<Rightarrow> Inl Z3Exception | Some m \<Rightarrow> answer m) \<and>
   snd (script (\<lambda>cs. (z cs)\<lparr>verdict := v\<rparr>)) = snd (script z) \<and>
   (model (z submitted) = None \<longrightarrow>
      script z =
        ([PrintAssertions submitted, PrintVerdict (verdict (z submitted)), PrintBlank],
         Inl Z3Exception) \<and>
      (\<forall>n. PrintAnswer n \<notin> set (fst (script z))))"
proof -
  have result: "snd (script y) =
      (case model (y submitted) of None \<Rightarrow> Inl Z3Exception | Some m \<Rightarrow> answer m)" for y
    by (simp add: script_unfold Let_def split: option.splits sum.splits)
  have same: "snd (script (\<lambda>cs. (z cs)\<lparr>verdict := v\<rparr>)) = snd (script z)"
    by (simp add: result)
  have none: "script z =
        ([PrintAssertions submitted, PrintVerdict (verdict (z submitted)), PrintBlank],
         Inl Z3Exception) \<and>
      (\<forall>n. PrintAnswer n \<notin> set (fst (script z)))" if "model (z submitted) = None"
    using that by (simp add: script_unfold)
  from result [of z] same none show ?thesis
    by blast
qed

theorem model_read_unguarded_witness:
  "model ((\<lambda>cs. \<lparr>verdict = Unsat, model = None\<rparr>) submitted) = None \<and>
   script (\<lambda>cs. \<lparr>verdict = Unsat, model = None\<rparr>) =
     ([PrintAssertions submitted, PrintVerdict Unsat, PrintBlank], Inl Z3Exception) \<and>
   (\<forall>n. PrintAnswer n \<notin> set (fst (script (\<lambda>cs. \<lparr>verdict = Unsat, model = None\<rparr>))))"
  using model_read_unguarded [of "\<lambda>cs. \<lparr>verdict = Unsat, model = None\<rparr>"]
  by simp

text \<open>
  C6, as the code has it. Three hailstones with the same \<open>x\<close> velocity can have exactly
  one integer solution: the hailstones \<open>(1, -1, 0)\<close>, \<open>(2, 0, -2)\<close> and \<open>(3, -3, -3)\<close> with
  velocities \<open>(0, 1, 0)\<close>, \<open>(0, 0, 1)\<close> and \<open>(0, 1, 1)\<close> are hit by the rock that starts
  at the origin with velocity \<open>(1, 0, 0)\<close>, and by no other.
\<close>

theorem parallel_x_counterexample:
  "\<exists>s. add_hailstones Solver [[1, - 1, 0, 0, 1, 0], [2, 0, - 2, 0, 0, 1], [3, - 3, - 3, 0, 1, 1]] = Inr s \<and>
       (\<exists>!a. sat_all a (assertions s))"
proof -
  let ?r = "\<lambda>v. if v = Vx then 1 else (0::int)"
  let ?cs = "[xy_constraint 1 (- 1) 0 1, xz_constraint 1 0 0 0,
              xy_constraint 2 0 0 0, xz_constraint 2 (- 2) 0 1,
              xy_constraint 3 (- 3) 0 1, xz_constraint 3 (- 3) 0 1]"
  have s: "add_hailstones Solver [[1, - 1, 0, 0, 1, 0], [2, 0, - 2, 0, 0, 1], [3, - 3, - 3, 0, 1, 1]] =
           Inr \<lparr>assertions = ?cs\<rparr>"
    by (rule add_hailstones_three)
  have ex: "sat_all ?r ?cs"
    by (simp add: holds_xy holds_xz)
  have un: "a = ?r" if "sat_all a ?cs" for a
  proof -
    from that have "a Px = 0 \<and> a Py = 0 \<and> a Pz = 0 \<and> a Vx = 1 \<and> a Vy = 0 \<and> a Vz = 0"
      by (intro cx_unique) (simp_all add: holds_xy holds_xz)
    then have "a v = ?r v" for v
      by (cases v) simp_all
    then show ?thesis
      by (intro ext)
  qed
  from ex un have "\<exists>!a. sat_all a ?cs" by blast
  with s show ?thesis by simp
qed

text \<open>
  C6, amended. For three hailstones with the same \<open>x\<close> velocity \<open>u\<close>, a satisfying
  assignment in which the rock has this \<open>x\<close> velocity too is never the only one: it
  stays satisfying for every \<open>py\<close> and \<open>pz\<close>, so the system has infinitely many
  satisfying assignments.
\<close>

theorem parallel_x_family:
  assumes "add_hailstones Solver
      [[sx1, sy1, sz1, u, uy1, uz1], [sx2, sy2, sz2, u, uy2, uz2], [sx3, sy3, sz3, u, uy3, uz3]] = Inr s"
    and "sat_all a (assertions s)" and "a Vx = u"
  shows "sat_all (a(Py := y, Pz := z)) (assertions s) \<and> infinite {b. sat_all b (assertions s)}"
proof -
  let ?cs = "[xy_constraint sx1 sy1 u uy1, xz_constraint sx1 sz1 u uz1,
              xy_constraint sx2 sy2 u uy2, xz_constraint sx2 sz2 u uz2,
              xy_constraint sx3 sy3 u uy3, xz_constraint sx3 sz3 u uz3]"
  from assms(1) have s: "assertions s = ?cs"
    unfolding add_hailstones_three by auto
  have free: "sat_all (a(Py := y, Pz := z)) ?cs" for y z
    using assms(2,3) unfolding s by (simp add: holds_xy holds_xz)
  have line: "sat_all (a(Py := y)) ?cs" for y
    using assms(2,3) unfolding s by (simp add: holds_xy holds_xz)
  let ?f = "\<lambda>y::int. a(Py := y)"
  have "inj ?f"
    by (rule injI) (metis fun_upd_same)
  then have "infinite (range ?f)"
    using finite_imageD infinite_UNIV_int by blast
  moreover have "range ?f \<subseteq> {b. sat_all b ?cs}"
  proof
    fix b assume "b \<in> range ?f"
    then obtain y where "b = a(Py := y)" by blast
    with line [of y] show "b \<in> {b. sat_all b ?cs}" by simp
  qed
  ultimately have "infinite {b. sat_all b ?cs}"
    using infinite_super by blast
  with free show ?thesis
    unfolding s by simp
qed

theorem parallel_x_family_witness:
  "add_hailstones Solver [[1, 0, 0, 5, 1, 2], [1, 7, 8, 5, 3, 4], [2, 0, 0, 5, 3, 4]] =
     Inr \<lparr>assertions =
       [xy_constraint 1 0 5 1, xz_constraint 1 0 5 2, xy_constraint 1 7 5 3,
        xz_constraint 1 8 5 4, xy_constraint 2 0 5 3, xz_constraint 2 0 5 4]\<rparr> \<and>
   sat_all ((\<lambda>v. 0)(Px := 1, Vx := 5, Vy := 3, Vz := 4))
     [xy_constraint 1 0 5 1, xz_constraint 1 0 5 2, xy_constraint 1 7 5 3,
      xz_constraint 1 8 5 4, xy_constraint 2 0 5 3, xz_constraint 2 0 5 4] \<and>
   infinite {b. sat_all b
     [xy_constraint 1 0 5 1, xz_constraint 1 0 5 2, xy_constraint 1 7 5 3,
      xz_constraint 1 8 5 4, xy_constraint 2 0 5 3, xz_constraint 2 0 5 4]}"
proof -
  let ?a = "(\<lambda>v. 0)(Px := 1, Vx := 5, Vy := 3, Vz := 4)"
  let ?cs = "[xy_constraint 1 0 5 1, xz_constraint 1 0 5 2, xy_constraint 1 7 5 3,
              xz_constraint 1 8 5 4, xy_constraint 2 0 5 3, xz_constraint 2 0 5 4]"
  have s: "add_hailstones Solver [[1, 0, 0, 5, 1, 2], [1, 7, 8, 5, 3, 4], [2, 0, 0, 5, 3, 4]] =
           Inr \<lparr>assertions = ?cs\<rparr>"
    by (rule add_hailstones_three)
  have a: "sat_all ?a (assertions \<lparr>assertions = ?cs\<rparr>)"
    by (simp add: holds_xy holds_xz)
  have v: "?a Vx = 5"
    by simp
  from s a parallel_x_family [OF s a v] show ?thesis
    by simp
qed

text \<open>
  C7. The input is three records of six integers each, written into the source with
  exactly the values below and in this order; unpacking them in the loop header never
  fails. The script takes nothing else: its only parameter in the model is the solver.
\<close>

theorem hailstones_literal:
  "hailstones =
     [[216518090678054, 311610807965630, 244665409335040, - 24, - 43, 118],
      [119252599207972, 265844340901442, 404506989029618, 93, 9, - 69],
      [366376232895280, 243548034524148, 222429607201000, 18, 38, 19]] \<and>
   length hailstones = 3 \<and>
   list_all (\<lambda>h. length h = 6) hailstones \<and>
   add_hailstones Solver hailstones = Inr \<lparr>assertions = submitted\<rparr>"
  unfolding submitted_def unfolding hailstones_def add_hailstones_three by simp

text \<open>
  C8. Each emitted constraint is nonlinear in the unknowns, whatever the constants of the
  hailstone are: the difference of its two sides, as a polynomial in the six unknowns, has
  total degree 2. In the first constraint the monomial \<open>px * vy\<close> has coefficient \<open>-1\<close>
  and \<open>vx * py\<close> has coefficient \<open>1\<close>; in the second, \<open>px * vz\<close> and \<open>vx * pz\<close> have
  these coefficients. The polynomial has the value of the difference of the two sides.
\<close>

theorem constraints_nonlinear:
  "total_degree (poly_of (residual (xy_constraint sx sy ux uy))) = 2 \<and>
   coeff (poly_of (residual (xy_constraint sx sy ux uy))) [Px, Vy] = - 1 \<and>
   coeff (poly_of (residual (xy_constraint sx sy ux uy))) [Vx, Py] = 1 \<and>
   total_degree (poly_of (residual (xz_constraint sx sz ux uz))) = 2 \<and>
   coeff (poly_of (residual (xz_constraint sx sz ux uz))) [Px, Vz] = - 1 \<and>
   coeff (poly_of (residual (xz_constraint sx sz ux uz))) [Vx, Pz] = 1 \<and>
   eval_poly a (poly_of (residual (xy_constraint sx sy ux uy))) =
     (a Px - sx) * (uy - a Vy) - (a Py - sy) * (ux - a Vx) \<and>
   eval_poly a (poly_of (residual (xz_constraint sx sz ux uz))) =
     (a Px - sx) * (uz - a Vz) - (a Pz - sz) * (ux - a Vx)"
proof -
  have cy: "coeff (poly_of (residual (xy_constraint sx sy ux uy))) [Px, Vy] = - 1"
    and cy': "coeff (poly_of (residual (xy_constraint sx sy ux uy))) [Vx, Py] = 1"
    by (simp_all add: poly_xy coeff_def)
  have cz: "coeff (poly_of (residual (xz_constraint sx sz ux uz))) [Px, Vz] = - 1"
    and cz': "coeff (poly_of (residual (xz_constraint sx sz ux uz))) [Vx, Pz] = 1"
    by (simp_all add: poly_xz coeff_def)
  have dy: "total_degree (poly_of (residual (xy_constraint sx sy ux uy))) = 2"
    by (rule total_degree_eqI [where t = "([Px, Vy], - 1)"]) (simp_all add: cy, simp_all add: poly_xy)
  have dz: "total_degree (poly_of (residual (xz_constraint sx sz ux uz))) = 2"
    by (rule total_degree_eqI [where t = "([Px, Vz], - 1)"]) (simp_all add: cz, simp_all add: poly_xz)
  have ey: "eval_poly a (poly_of (residual (xy_constraint sx sy ux uy))) =
     (a Px - sx) * (uy - a Vy) - (a Py - sy) * (ux - a Vx)"
    unfolding eval_poly_of by (simp add: xy_constraint_def)
  have ez: "eval_poly a (poly_of (residual (xz_constraint sx sz ux uz))) =
     (a Px - sx) * (uz - a Vz) - (a Pz - sz) * (ux - a Vx)"
    unfolding eval_poly_of by (simp add: xz_constraint_def)
  from cy cy' cz cz' dy dz ey ez show ?thesis by simp
qed

text \<open>
  C9. If rock and hailstone are at the same position at some real time \<open>t\<close>, of any
  sign, then both constraints that the script emits for this hailstone hold. Nothing is
  assumed about the velocities.
\<close>

theorem encoding_necessary:
  assumes "\<exists>t. meets a [sx, sy, sz, ux, uy, uz] t"
  shows "holds a (xy_constraint sx sy ux uy) \<and> holds a (xz_constraint sx sz ux uz)"
proof -
  from assms obtain t where t: "meets a [sx, sy, sz, ux, uy, uz] t" ..
  let ?r = real_of_int
  from t have x: "?r (a Px - sx) = t * ?r (ux - a Vx)"
    and y: "?r (a Py - sy) = t * ?r (uy - a Vy)"
    and z: "?r (a Pz - sz) = t * ?r (uz - a Vz)"
    by (simp_all add: meets_def algebra_simps)
  have "?r ((a Px - sx) * (uy - a Vy)) = t * ?r (ux - a Vx) * ?r (uy - a Vy)"
    using x by simp
  also have "\<dots> = ?r ((a Py - sy) * (ux - a Vx))"
    using y by simp
  finally have xy: "(a Px - sx) * (uy - a Vy) = (a Py - sy) * (ux - a Vx)"
    by (simp only: of_int_eq_iff)
  have "?r ((a Px - sx) * (uz - a Vz)) = t * ?r (ux - a Vx) * ?r (uz - a Vz)"
    using x by simp
  also have "\<dots> = ?r ((a Pz - sz) * (ux - a Vx))"
    using z by simp
  finally have xz: "(a Px - sx) * (uz - a Vz) = (a Pz - sz) * (ux - a Vx)"
    by (simp only: of_int_eq_iff)
  from xy xz show ?thesis
    by (simp add: holds_xy holds_xz)
qed

theorem encoding_necessary_witness:
  "meets rock [216518090678054, 311610807965630, 244665409335040, - 24, - 43, 118] 873417610094 \<and>
   holds rock (xy_constraint 216518090678054 311610807965630 (- 24) (- 43)) \<and>
   holds rock (xz_constraint 216518090678054 244665409335040 (- 24) 118)"
proof -
  have m: "meets rock [216518090678054, 311610807965630, 244665409335040, - 24, - 43, 118] 873417610094"
    by (simp add: meets_def)
  from m encoding_necessary [OF exI, OF m] show ?thesis
    by simp
qed

text \<open>
  C10. Moving rock and hailstone by the same displacement and adding the same vector to
  both velocities does not change whether the two constraints of the hailstone hold; so
  an assignment satisfies the system of three hailstones exactly when the moved
  assignment satisfies the system of the three moved hailstones.
\<close>

theorem galilean_invariance:
  "(holds a (xy_constraint sx sy ux uy) \<and> holds a (xz_constraint sx sz ux uz) \<longleftrightarrow>
    holds (shift dx dy dz wx wy wz a) (xy_constraint (sx + dx) (sy + dy) (ux + wx) (uy + wy)) \<and>
    holds (shift dx dy dz wx wy wz a) (xz_constraint (sx + dx) (sz + dz) (ux + wx) (uz + wz))) \<and>
   (\<exists>s s'.
      add_hailstones Solver
        [[sx1, sy1, sz1, ux1, uy1, uz1], [sx2, sy2, sz2, ux2, uy2, uz2],
         [sx3, sy3, sz3, ux3, uy3, uz3]] = Inr s \<and>
      add_hailstones Solver
        [[sx1 + dx, sy1 + dy, sz1 + dz, ux1 + wx, uy1 + wy, uz1 + wz],
         [sx2 + dx, sy2 + dy, sz2 + dz, ux2 + wx, uy2 + wy, uz2 + wz],
         [sx3 + dx, sy3 + dy, sz3 + dz, ux3 + wx, uy3 + wy, uz3 + wz]] = Inr s' \<and>
      (sat_all a (assertions s) \<longleftrightarrow> sat_all (shift dx dy dz wx wy wz a) (assertions s')))"
proof -
  have one: "holds (shift dx dy dz wx wy wz a) (xy_constraint (p + dx) (q + dy) (u + wx) (v + wy)) \<longleftrightarrow>
             holds a (xy_constraint p q u v)" for p q u v
    by (simp add: holds_xy shift_def)
  have two: "holds (shift dx dy dz wx wy wz a) (xz_constraint (p + dx) (q + dz) (u + wx) (v + wz)) \<longleftrightarrow>
             holds a (xz_constraint p q u v)" for p q u v
    by (simp add: holds_xz shift_def)
  show ?thesis
    unfolding add_hailstones_three by (simp add: one two)
qed

end
